theory Spec2Isabelle
  imports Complex_Main "HOL-Library.Multiset" "HOL-Library.Char_ord" "HOL-Library.List_Lexorder"
begin

section \<open>Values of the program\<close>

text \<open>
  The plugin (src/index.js) is JavaScript. A \<open>string\<close> here is a JavaScript string
  whose UTF-16 code units are all below 256, one \<open>char\<close> per code unit; the order on
  strings (\<open>Char_ord\<close>, \<open>List_Lexorder\<close>) is then the order of JavaScript's \<open><\<close> on
  strings. Numbers are IEEE doubles in the program; the model keeps \<open>NaN\<close> apart and
  computes the finite ones as exact reals, so the rounding of one operation is not
  represented.
\<close>

datatype error = TypeError

datatype jsnum = NaN | Num real

text \<open>What a \<open>color\<close> property can hold: a string, a nested shade object, the length of
  a string, or nothing.\<close>

datatype jsval =
  JUndefined | JString string | JNumber nat | JObject "(string \<times> string) list"

text \<open>
  The objects of the libraries d3-color and d3-hsv. \<open>color(specifier)\<close> of d3-color
  returns \<open>null\<close>, an \<open>Rgb\<close> object with the properties \<open>r\<close>, \<open>g\<close>, \<open>b\<close>, \<open>opacity\<close>, or,
  for an \<open>hsl()\<close>/\<open>hsla()\<close> specifier, an \<open>Hsl\<close> object with the properties \<open>h\<close>, \<open>s\<close>, \<open>l\<close>,
  \<open>opacity\<close>. \<open>hsv(specifier)\<close> of d3-hsv always returns an \<open>Hsv\<close> object (\<open>h\<close>, \<open>s\<close>, \<open>v\<close>,
  \<open>opacity\<close>), with \<open>NaN\<close> components for a specifier it cannot read.
\<close>

datatype d3color = Rgb jsnum jsnum jsnum jsnum | Hsl jsnum jsnum jsnum jsnum

datatype d3hsv = Hsv jsnum jsnum jsnum jsnum

record entry =
  name :: string
  slug :: string
  color :: jsval

text \<open>The \<open>tailwind.shades\<close> option: \<open>false\<close>/\<open>true\<close>, an array of shade keys, or an
  object from shade keys to labels (its pairs in \<open>Object.keys\<close> order).\<close>

datatype shades_opt = SBool bool | SArray "string list" | SObject "(string \<times> string) list"

text \<open>
  The library functions the plugin calls and that are not part of the repository are
  parameters of the model: \<open>d3Color\<close> and \<open>d3Hsv\<close> as imported in index.js, and lodash's
  \<open>startCase\<close>, \<open>camelCase\<close> and \<open>has\<close> (the latter at the shades option and a key).
\<close>

record lib =
  d3Color :: "jsval \<Rightarrow> d3color option"
  d3Hsv :: "jsval \<Rightarrow> d3hsv"
  startCase :: "string \<Rightarrow> string"
  camelCase :: "string \<Rightarrow> string"
  has :: "shades_opt \<Rightarrow> string \<Rightarrow> bool"

section \<open>lodash collection functions\<close>

text \<open>\<open>baseUniq\<close> walks the array and keeps an element when its computed key has not
  been seen before, so the first occurrence of each key survives, in order.\<close>

fun baseUniq :: "('a \<Rightarrow> 'k) \<Rightarrow> 'k list \<Rightarrow> 'a list \<Rightarrow> 'a list" where
  "baseUniq iteratee seen [] = []"
| "baseUniq iteratee seen (x # xs) =
     (if iteratee x \<in> set seen then baseUniq iteratee seen xs
      else x # baseUniq iteratee (seen @ [iteratee x]) xs)"

definition uniqBy :: "('a \<Rightarrow> 'k) \<Rightarrow> 'a list \<Rightarrow> 'a list" where
  "uniqBy iteratee array = baseUniq iteratee [] array"

text \<open>\<open>_.union\<close> flattens its arguments one level and removes repeated elements. On
  objects it compares references; the model compares values, which \<open>uniqBy_union\<close> below
  shows to be invisible once \<open>uniqBy\<close> has run on the result.\<close>

definition union :: "'a list list \<Rightarrow> 'a list" where
  "union arrays = baseUniq (\<lambda>x. x) [] (concat arrays)"

text \<open>\<open>_.partition\<close> with a predicate that can throw: the first exception ends the walk.\<close>

fun partition_e :: "('a \<Rightarrow> error + bool) \<Rightarrow> 'a list \<Rightarrow> error + ('a list \<times> 'a list)" where
  "partition_e P [] = Inr ([], [])"
| "partition_e P (x # xs) =
     (case P x of
        Inl e \<Rightarrow> Inl e
      | Inr b \<Rightarrow>
          (case partition_e P xs of
             Inl e \<Rightarrow> Inl e
           | Inr (yes, no) \<Rightarrow> Inr (if b then (x # yes, no) else (yes, x # no))))"

section \<open>Grayscale checks\<close>

text \<open>\<open>===\<close> on numbers.\<close>

fun strict_eq :: "jsnum \<Rightarrow> jsnum \<Rightarrow> bool" where
  "strict_eq (Num x) (Num y) = (x = y)"
| "strict_eq _ _ = False"

text \<open>
  \<open>isGrayscale(color)\<close>: \<open>const { r, g, b } = d3Color(color); return r === g && r === b;\<close>
  Destructuring \<open>null\<close> throws. An \<open>Hsl\<close> object has no property \<open>r\<close>, \<open>g\<close> or \<open>b\<close>: the three
  are \<open>undefined\<close>, and \<open>undefined === undefined\<close> holds.
\<close>

definition isGrayscale :: "lib \<Rightarrow> jsval \<Rightarrow> error + bool" where
  "isGrayscale L c =
     (case d3Color L c of
        None \<Rightarrow> Inl TypeError
      | Some (Rgb r g b opacity) \<Rightarrow> Inr (strict_eq r g \<and> strict_eq r b)
      | Some (Hsl h s l opacity) \<Rightarrow> Inr True)"

text \<open>
  \<open>maybeGrayscale(color)\<close>: \<open>const { h, s, v } = d3Hsv(color); return v < 1.3 / (1 + 8.5 * s);\<close>
  A comparison with \<open>NaN\<close> is false; \<open>1.3 / 0\<close> is \<open>Infinity\<close>, above every number. The
  curve is computed in exact reals. The program rounds \<open>s\<close>, \<open>v\<close>, the constant 1.3 and
  each operation to a double, so for a color within a rounding error of the curve the two
  can answer differently; the statements below that evaluate the curve do so at colors
  far from it, and the others hold whatever the test answers.
\<close>

fun below_curve :: "jsnum \<Rightarrow> jsnum \<Rightarrow> bool" where
  "below_curve (Num sat) (Num val) =
     (if 1 + 8.5 * sat = 0 then True else val < 1.3 / (1 + 8.5 * sat))"
| "below_curve _ _ = False"

definition maybeGrayscale :: "lib \<Rightarrow> jsval \<Rightarrow> bool" where
  "maybeGrayscale L c = (case d3Hsv L c of Hsv h s v opacity \<Rightarrow> below_curve s v)"

section \<open>build\<close>

text \<open>Decimal numerals: reading one as an array index and writing a length.\<close>

definition digit_value :: "char \<Rightarrow> nat option" where
  "digit_value c =
     (let n = (of_char c :: nat) in if 48 \<le> n \<and> n \<le> 57 then Some (n - 48) else None)"

fun digits_value :: "nat \<Rightarrow> string \<Rightarrow> nat option" where
  "digits_value acc [] = Some acc"
| "digits_value acc (c # cs) =
     (case digit_value c of None \<Rightarrow> None | Some d \<Rightarrow> digits_value (10 * acc + d) cs)"

text \<open>A property name is an array index when it is the canonical decimal form of a number.\<close>

fun array_index :: "string \<Rightarrow> nat option" where
  "array_index [] = None"
| "array_index [c] = digits_value 0 [c]"
| "array_index (c # cs) = (if c = CHR ''0'' then None else digits_value 0 (c # cs))"

fun decimal :: "nat \<Rightarrow> string" where
  "decimal n =
     (if n < 10 then [char_of (48 + n)] else decimal (n div 10) @ [char_of (48 + n mod 10)])"

text \<open>\<open>String(value)\<close>, as \<open>RegExp.prototype.test\<close> applies it to its argument.\<close>

fun toString :: "jsval \<Rightarrow> string" where
  "toString JUndefined = ''undefined''"
| "toString (JString s) = s"
| "toString (JNumber n) = decimal n"
| "toString (JObject m) = ''[object Object]''"

text \<open>
  The test \<open>/^(?:rgb|hsl)a?\(.+?\)$/i\<close>: the letters in either case, an optional \<open>a\<close>, an
  opening parenthesis, at least one character other than a line terminator, and a
  closing parenthesis that ends the string.
\<close>

definition ci :: "char \<Rightarrow> char \<Rightarrow> char \<Rightarrow> bool" where
  "ci lo up c = (c = lo \<or> c = up)"

fun notation_prefix :: "string \<Rightarrow> string option" where
  "notation_prefix (c1 # c2 # c3 # rest) =
     (if (ci CHR ''r'' CHR ''R'' c1 \<and> ci CHR ''g'' CHR ''G'' c2 \<and> ci CHR ''b'' CHR ''B'' c3)
        \<or> (ci CHR ''h'' CHR ''H'' c1 \<and> ci CHR ''s'' CHR ''S'' c2 \<and> ci CHR ''l'' CHR ''L'' c3)
      then Some rest else None)"
| "notation_prefix _ = None"

fun optional_a :: "string \<Rightarrow> string" where
  "optional_a (c # rest) = (if ci CHR ''a'' CHR ''A'' c then rest else c # rest)"
| "optional_a [] = []"

definition line_terminator :: "char \<Rightarrow> bool" where
  "line_terminator c = (c = CHR 0x0A \<or> c = CHR 0x0D)"

fun parenthesised :: "string \<Rightarrow> bool" where
  "parenthesised (c # rest) =
     (c = CHR ''('' \<and> rest \<noteq> [] \<and> last rest = CHR '')'' \<and> butlast rest \<noteq> []
      \<and> list_all (\<lambda>d. \<not> line_terminator d) (butlast rest))"
| "parenthesised [] = False"

definition notation_test :: "string \<Rightarrow> bool" where
  "notation_test str =
     (case notation_prefix str of
        None \<Rightarrow> False
      | Some rest \<Rightarrow> parenthesised (optional_a rest))"

text \<open>The local constants of \<open>build(...objects)\<close>, in the order the method computes them.\<close>

definition collection :: "entry list list \<Rightarrow> entry list" where
  "collection objects = uniqBy name (union objects)"

definition colors :: "lib \<Rightarrow> entry list list \<Rightarrow> entry list" where
  "colors L objects =
     fst (partition (\<lambda>value. d3Color L (color value) \<noteq> None) (collection objects))"

definition maybeColors :: "lib \<Rightarrow> entry list list \<Rightarrow> entry list" where
  "maybeColors L objects =
     snd (partition (\<lambda>value. d3Color L (color value) \<noteq> None) (collection objects))"

definition falsePositives :: "lib \<Rightarrow> entry list list \<Rightarrow> entry list" where
  "falsePositives L objects =
     fst (partition (\<lambda>value. notation_test (toString (color value))) (maybeColors L objects))"

definition notColors :: "lib \<Rightarrow> entry list list \<Rightarrow> entry list" where
  "notColors L objects =
     snd (partition (\<lambda>value. notation_test (toString (color value))) (maybeColors L objects))"

text \<open>The predicate of the third partition, \<open>isGrayscale(c) || maybeGrayscale(c)\<close>.\<close>

definition grayscale_test :: "lib \<Rightarrow> entry \<Rightarrow> error + bool" where
  "grayscale_test L value =
     (case isGrayscale L (color value) of
        Inl e \<Rightarrow> Inl e
      | Inr b \<Rightarrow> Inr (b \<or> maybeGrayscale L (color value)))"

definition grayscale_split :: "lib \<Rightarrow> entry list list \<Rightarrow> error + (entry list \<times> entry list)" where
  "grayscale_split L objects = partition_e (grayscale_test L) (colors L objects)"

definition build :: "lib \<Rightarrow> entry list list \<Rightarrow> error + entry list" where
  "build L objects =
     (case grayscale_split L objects of
        Inl e \<Rightarrow> Inl e
      | Inr (grayscale, notGrayscale) \<Rightarrow>
          Inr (concat (map (sort_key name)
                 [notGrayscale @ falsePositives L objects @ notColors L objects, grayscale])))"

text \<open>The two lists that the third partition binds, for statements about them.\<close>

definition grayscale :: "lib \<Rightarrow> entry list list \<Rightarrow> entry list" where
  "grayscale L objects =
     (case grayscale_split L objects of Inl e \<Rightarrow> [] | Inr (yes, no) \<Rightarrow> yes)"

definition notGrayscale :: "lib \<Rightarrow> entry list list \<Rightarrow> entry list" where
  "notGrayscale L objects =
     (case grayscale_split L objects of Inl e \<Rightarrow> [] | Inr (yes, no) \<Rightarrow> no)"

section \<open>Shade resolution\<close>

text \<open>
  The table that \<open>tailwind()\<close> stores in \<open>this.tailwind\<close>: base names to a color string or
  to a shade object, the pairs of each object in \<open>Object.keys\<close> order. The options are
  the two that the resolver reads. A property read sees the own properties of a value:
  the keys of an object, the indexed characters and the \<open>length\<close> of a string, none of a
  number; what the prototypes add is not modelled.
\<close>

datatype tvalue = Str string | Shades "(string \<times> string) list"

type_synonym table = "(string \<times> tvalue) list"

record options =
  blacklist :: "string list"
  shades :: shades_opt

fun truthy :: "shades_opt \<Rightarrow> bool" where
  "truthy (SBool b) = b"
| "truthy (SArray l) = True"
| "truthy (SObject ob) = True"

fun isObject :: "shades_opt \<Rightarrow> bool" where
  "isObject (SBool b) = False"
| "isObject (SArray l) = True"
| "isObject (SObject ob) = True"

text \<open>The text that \<open>`${this.options.tailwind.shades[description]}`\<close> renders.\<close>

fun shade_label :: "shades_opt \<Rightarrow> string \<Rightarrow> string" where
  "shade_label (SBool b) description = ''undefined''"
| "shade_label (SArray l) description =
     (case array_index description of
        Some i \<Rightarrow> if i < length l then l ! i else ''undefined''
      | None \<Rightarrow> if description = ''length'' then decimal (length l) else ''undefined'')"
| "shade_label (SObject ob) description =
     (case map_of ob description of Some label \<Rightarrow> label | None \<Rightarrow> ''undefined'')"

definition whitespace :: "char \<Rightarrow> bool" where
  "whitespace c = (of_char c \<in> {9, 10, 11, 12, 13, 32, 160 :: nat})"

definition trim :: "string \<Rightarrow> string" where
  "trim str = rev (dropWhile whitespace (rev (dropWhile whitespace str)))"

text \<open>
  \<open>title(value, description)\<close>. \<open>_.isEmpty\<close> holds of \<open>undefined\<close> and of the empty string.
  The inner call \<open>this.title(description)\<close> passes no description.
\<close>

fun title :: "lib \<Rightarrow> options \<Rightarrow> string \<Rightarrow> string option \<Rightarrow> string" where
  "title L opts val None = startCase L (camelCase L val)"
| "title L opts val (Some description) =
     (if description \<noteq> [] \<and> isObject (shades opts) \<and> has L (shades opts) description
      then trim (shade_label (shades opts) description @ '' '' @ startCase L (camelCase L val))
      else startCase L (camelCase L val)
           @ (if description \<noteq> [] then '' ('' @ title L opts description None @ '')'' else []))"

definition toLowerCase_char :: "char \<Rightarrow> char" where
  "toLowerCase_char c =
     (let n = (of_char c :: nat)
      in if (65 \<le> n \<and> n \<le> 90) \<or> (192 \<le> n \<and> n \<le> 222 \<and> n \<noteq> 215)
         then char_of (n + 32) else c)"

definition toLowerCase :: "string \<Rightarrow> string" where
  "toLowerCase str = map toLowerCase_char str"

text \<open>\<open>this.tailwind[key]\<close> and \<open>object[value]\<close>; reading a property of \<open>undefined\<close> throws.\<close>

definition table_get :: "table \<Rightarrow> string \<Rightarrow> jsval" where
  "table_get T key =
     (case map_of T key of
        None \<Rightarrow> JUndefined
      | Some (Str c) \<Rightarrow> JString c
      | Some (Shades m) \<Rightarrow> JObject m)"

fun property :: "jsval \<Rightarrow> string \<Rightarrow> error + jsval" where
  "property JUndefined k = Inl TypeError"
| "property (JObject m) k = Inr (case map_of m k of Some c \<Rightarrow> JString c | None \<Rightarrow> JUndefined)"
| "property (JString str) k =
     Inr (case array_index k of
            Some i \<Rightarrow> if i < length str then JString [str ! i] else JUndefined
          | None \<Rightarrow> if k = ''length'' then JNumber (length str) else JUndefined)"
| "property (JNumber n) k = Inr JUndefined"

fun of_option :: "string option \<Rightarrow> jsval" where
  "of_option None = JUndefined"
| "of_option (Some str) = JString str"

text \<open>\<open>transform(key, value, isSass = false)\<close>; \<open>!value\<close> holds of \<open>undefined\<close> and of \<open>''\<close>.\<close>

definition transform :: "lib \<Rightarrow> options \<Rightarrow> table \<Rightarrow> string \<Rightarrow> string option \<Rightarrow> bool \<Rightarrow> error + entry" where
  "transform L opts T key val isSass =
     (if isSass
      then Inr \<lparr>name = title L opts key None, slug = key, color = of_option val\<rparr>
      else case val of
        None \<Rightarrow> Inr \<lparr>name = title L opts key None, slug = key, color = table_get T key\<rparr>
      | Some v \<Rightarrow>
          if v = []
          then Inr \<lparr>name = title L opts key None, slug = key, color = table_get T key\<rparr>
          else if ''default'' = toLowerCase v
          then (case property (table_get T key) v of
                  Inl e \<Rightarrow> Inl e
                | Inr c \<Rightarrow> Inr \<lparr>name = title L opts key None, slug = key, color = c\<rparr>)
          else (case property (table_get T key) v of
                  Inl e \<Rightarrow> Inl e
                | Inr c \<Rightarrow>
                    Inr \<lparr>name = (if truthy (shades opts) then title L opts key (Some v)
                                 else title L opts key None),
                         slug = key @ ''-'' @ v, color = c\<rparr>))"

fun mapM_e :: "('a \<Rightarrow> error + 'b) \<Rightarrow> 'a list \<Rightarrow> error + 'b list" where
  "mapM_e f [] = Inr []"
| "mapM_e f (x # xs) =
     (case f x of
        Inl e \<Rightarrow> Inl e
      | Inr y \<Rightarrow> (case mapM_e f xs of Inl e \<Rightarrow> Inl e | Inr ys \<Rightarrow> Inr (y # ys)))"

definition single :: "error + entry \<Rightarrow> error + entry list" where
  "single r = (case r of Inl e \<Rightarrow> Inl e | Inr x \<Rightarrow> Inr [x])"

text \<open>
  The callback that \<open>tailwind()\<close> maps over \<open>Object.keys(this.tailwind)\<close>, as the list of
  entries that is left of its result after \<open>flatMap\<close> and \<open>.filter((value) => !!value)\<close>:
  none for \<open>undefined\<close>, one for an object, all of them for an array. The \<open>case\<close> on the
  shades option is the chain \<open>_.isArray\<close>, \<open>_.isObject\<close>, otherwise; an array is tested first.
\<close>

definition tailwind_entry :: "lib \<Rightarrow> options \<Rightarrow> table \<Rightarrow> string \<Rightarrow> error + entry list" where
  "tailwind_entry L opts T key =
     (if key = [] \<or> key \<in> set (blacklist opts) then Inr []
      else case map_of T key of
        None \<Rightarrow> Inl TypeError
      | Some (Str c) \<Rightarrow> single (transform L opts T key None False)
      | Some (Shades m) \<Rightarrow>
          if \<not> truthy (shades opts) \<and> ''500'' \<in> set (map fst m)
          then single (transform L opts T key (Some ''500'') False)
          else (case shades opts of
                  SArray l \<Rightarrow>
                    mapM_e (\<lambda>v. transform L opts T key (Some v) False)
                      (filter (\<lambda>v. v \<in> set l) (map fst m))
                | SObject ob \<Rightarrow>
                    mapM_e (\<lambda>v. transform L opts T key (Some v) False)
                      (filter (\<lambda>v. v \<in> set (map fst ob)) (map fst m))
                | SBool b \<Rightarrow>
                    mapM_e (\<lambda>v. transform L opts T key (Some v) False) (map fst m)))"

definition tailwind :: "lib \<Rightarrow> options \<Rightarrow> table \<Rightarrow> error + entry list" where
  "tailwind L opts T =
     (case mapM_e (tailwind_entry L opts T) (map fst T) of
        Inl e \<Rightarrow> Inl e
      | Inr ess \<Rightarrow> Inr (concat ess))"

section \<open>A sample of the libraries\<close>

text \<open>
  An excerpt of d3-color, d3-hsv and lodash on the strings used in the examples below:
  what the libraries return there, and \<open>null\<close> (or the string unchanged) elsewhere.
\<close>

definition sample_d3Color :: "jsval \<Rightarrow> d3color option" where
  "sample_d3Color c =
     (if c = JString ''#f00'' then Some (Rgb (Num 255) (Num 0) (Num 0) (Num 1))
      else if c = JString ''#e00'' then Some (Rgb (Num 238) (Num 0) (Num 0) (Num 1))
      else if c = JString ''#111'' then Some (Rgb (Num 17) (Num 17) (Num 17) (Num 1))
      else if c = JString ''hsl(0, 100%, 50%)''
      then Some (Hsl (Num 0) (Num 1) (Num 0.5) (Num 1))
      else None)"

definition sample_d3Hsv :: "jsval \<Rightarrow> d3hsv" where
  "sample_d3Hsv c =
     (if c = JString ''#f00'' then Hsv (Num 0) (Num 1) (Num 1) (Num 1)
      else if c = JString ''#e00'' then Hsv (Num 0) (Num 1) (Num (238 / 255)) (Num 1)
      else if c = JString ''#111'' then Hsv NaN (Num 0) (Num (17 / 255)) (Num 1)
      else if c = JString ''hsl(0, 100%, 50%)'' then Hsv (Num 0) (Num 1) (Num 1) (Num 1)
      else Hsv NaN NaN NaN NaN)"

definition sample_startCase :: "string \<Rightarrow> string" where
  "sample_startCase str = (if str = ''blue'' then ''Blue'' else str)"

definition sample_camelCase :: "string \<Rightarrow> string" where
  "sample_camelCase str = str"

text \<open>\<open>_.has\<close> on a key without dots or brackets: an own-property test.\<close>

fun sample_has :: "shades_opt \<Rightarrow> string \<Rightarrow> bool" where
  "sample_has (SBool b) k = False"
| "sample_has (SArray l) k =
     (case array_index k of Some i \<Rightarrow> i < length l | None \<Rightarrow> k = ''length'')"
| "sample_has (SObject ob) k = (k \<in> set (map fst ob))"

definition sample :: lib where
  "sample = \<lparr>d3Color = sample_d3Color, d3Hsv = sample_d3Hsv, startCase = sample_startCase,
     camelCase = sample_camelCase, has = sample_has\<rparr>"

section \<open>Facts about the collection functions\<close>

lemma baseUniq_subset: "set (baseUniq f seen xs) \<subseteq> set xs"
  by (induction xs arbitrary: seen) auto






lemma partition_e_total:
  "\<forall>x \<in> set xs. \<exists>b. P x = Inr b \<Longrightarrow>
   partition_e P xs = Inr (filter (\<lambda>x. P x = Inr True) xs, filter (\<lambda>x. P x = Inr False) xs)"
  by (induction xs) auto

section \<open>Facts about build\<close>

lemma colors_parsed: "value \<in> set (colors L objects) \<Longrightarrow> d3Color L (color value) \<noteq> None"
  by (auto simp: colors_def)

lemma isGrayscale_parsed: "d3Color L c \<noteq> None \<Longrightarrow> \<exists>b. isGrayscale L c = Inr b"
  by (auto simp: isGrayscale_def split: option.splits d3color.splits)

lemma grayscale_test_parsed:
  "d3Color L (color value) \<noteq> None \<Longrightarrow> \<exists>b. grayscale_test L value = Inr b"
  using isGrayscale_parsed [of L "color value"] by (auto simp: grayscale_test_def)

lemma grayscale_split_total:
  "grayscale_split L objects =
     Inr (filter (\<lambda>value. grayscale_test L value = Inr True) (colors L objects),
          filter (\<lambda>value. grayscale_test L value = Inr False) (colors L objects))"
  unfolding grayscale_split_def
  by (rule partition_e_total) (auto dest: colors_parsed intro: grayscale_test_parsed)

lemma grayscale_eq:
  "grayscale L objects = filter (\<lambda>value. grayscale_test L value = Inr True) (colors L objects)"
  by (simp add: grayscale_def grayscale_split_total)

lemma notGrayscale_eq:
  "notGrayscale L objects = filter (\<lambda>value. grayscale_test L value = Inr False) (colors L objects)"
  by (simp add: notGrayscale_def grayscale_split_total)

lemma build_eq:
  "build L objects =
     Inr (sort_key name (notGrayscale L objects @ falsePositives L objects @ notColors L objects)
          @ sort_key name (grayscale L objects))"
  by (simp add: build_def grayscale_split_total grayscale_eq notGrayscale_eq)




lemmas sample_simps = sample_def sample_d3Color_def sample_d3Hsv_def sample_startCase_def
  sample_camelCase_def

lemmas build_simps = build_def grayscale_split_def colors_def collection_def uniqBy_def
  union_def grayscale_test_def isGrayscale_def maybeGrayscale_def falsePositives_def
  notColors_def maybeColors_def notation_test_def ci_def line_terminator_def
  grayscale_def notGrayscale_def

text \<open>
  Where the parser returned an \<open>Rgb\<close> object the third partition is the disjunction of the
  two checks, and at saturation 0 every value up to 1 lies below the curve.
\<close>

lemma grayscale_rgb_iff:
  assumes "value \<in> set (collection objects)"
    and "d3Color L (color value) = Some (Rgb r g b opacity)"
    and "d3Hsv L (color value) = Hsv h s v opacity'"
  shows "value \<in> set (grayscale L objects)
         \<longleftrightarrow> (strict_eq r g \<and> strict_eq r b) \<or> below_curve s v"
  using assms
  by (auto simp: grayscale_eq colors_def grayscale_test_def isGrayscale_def maybeGrayscale_def)

lemma below_curve_zero_saturation: "val \<le> 1 \<Longrightarrow> below_curve (Num 0) (Num val)"
  by simp




section \<open>Claims about build\<close>

text \<open>
  Claim C1, as amended. The output of \<open>build\<close> is two runs. The first holds the chromatic,
  the non-standard-notation and the unparsable entries together, sorted ascending by
  name as one group; the second holds the grayscale entries, sorted ascending by name.
\<close>

theorem build_order:
  "\<exists>front rear.
     build L objects = Inr (front @ rear)
     \<and> mset front = mset (notGrayscale L objects) + mset (falsePositives L objects)
                     + mset (notColors L objects)
     \<and> sorted (map name front)
     \<and> mset rear = mset (grayscale L objects)
     \<and> sorted (map name rear)"
proof -
  let ?front = "sort_key name (notGrayscale L objects @ falsePositives L objects @ notColors L objects)"
  let ?rear = "sort_key name (grayscale L objects)"
  have "build L objects = Inr (?front @ ?rear)" by (rule build_eq)
  moreover have "mset ?front = mset (notGrayscale L objects) + mset (falsePositives L objects)
                     + mset (notColors L objects)" by simp
  moreover have "sorted (map name ?front)" by simp
  moreover have "mset ?rear = mset (grayscale L objects)" by simp
  moreover have "sorted (map name ?rear)" by simp
  ultimately show ?thesis by blast
qed

text \<open>An instance of C1 as amended: one non-standard, one chromatic and one gray entry.\<close>

theorem build_order_witness:
  "\<exists>front rear.
     build sample [[\<lparr>name = ''B'', slug = ''b'', color = JString ''#f00''\<rparr>,
                    \<lparr>name = ''C'', slug = ''c'', color = JString ''#111''\<rparr>,
                    \<lparr>name = ''A'', slug = ''a'', color = JString ''rgb(var(--x))''\<rparr>]]
       = Inr (front @ rear)
     \<and> front = [\<lparr>name = ''A'', slug = ''a'', color = JString ''rgb(var(--x))''\<rparr>,
                \<lparr>name = ''B'', slug = ''b'', color = JString ''#f00''\<rparr>]
     \<and> rear = [\<lparr>name = ''C'', slug = ''c'', color = JString ''#111''\<rparr>]"
  using build_order [of sample "[[\<lparr>name = ''B'', slug = ''b'', color = JString ''#f00''\<rparr>,
                    \<lparr>name = ''C'', slug = ''c'', color = JString ''#111''\<rparr>,
                    \<lparr>name = ''A'', slug = ''a'', color = JString ''rgb(var(--x))''\<rparr>]]"]
  by (simp add: build_simps sample_simps)

text \<open>
  Claim C1 as stated fails: with the chromatic entry \<open>B\<close> (\<open>#f00\<close>) and the
  non-standard-notation entry \<open>A\<close> (\<open>rgb(var(--x))\<close>) the output is \<open>A\<close>, \<open>B\<close>, not the three
  groups sorted one by one and put one after the other, which would be \<open>B\<close>, \<open>A\<close>.
\<close>

theorem build_order_groups_counterexample:
  "build sample [[\<lparr>name = ''B'', slug = ''b'', color = JString ''#f00''\<rparr>,
                  \<lparr>name = ''A'', slug = ''a'', color = JString ''rgb(var(--x))''\<rparr>]]
   \<noteq> Inr (sort_key name (notGrayscale sample
                [[\<lparr>name = ''B'', slug = ''b'', color = JString ''#f00''\<rparr>,
                  \<lparr>name = ''A'', slug = ''a'', color = JString ''rgb(var(--x))''\<rparr>]])
          @ sort_key name (falsePositives sample
                [[\<lparr>name = ''B'', slug = ''b'', color = JString ''#f00''\<rparr>,
                  \<lparr>name = ''A'', slug = ''a'', color = JString ''rgb(var(--x))''\<rparr>]])
          @ sort_key name (notColors sample
                [[\<lparr>name = ''B'', slug = ''b'', color = JString ''#f00''\<rparr>,
                  \<lparr>name = ''A'', slug = ''a'', color = JString ''rgb(var(--x))''\<rparr>]])
          @ sort_key name (grayscale sample
                [[\<lparr>name = ''B'', slug = ''b'', color = JString ''#f00''\<rparr>,
                  \<lparr>name = ''A'', slug = ''a'', color = JString ''rgb(var(--x))''\<rparr>]]))"
  by (simp add: build_simps sample_simps)

text \<open>
  Claim C5, evaluated where the code departs from it. \<open>hsl(0, 100%, 50%)\<close> is pure red: its
  red, green and blue components are 255, 0, 0 and its HSV value 1 is not below the curve
  at saturation 1. \<open>d3Color\<close> returns an \<open>Hsl\<close> object for it, \<open>isGrayscale\<close> reads three
  undefined properties and answers true, and \<open>build\<close> classifies the entry grayscale. The
  same red written \<open>#f00\<close> is not grayscale.
\<close>

theorem hsl_red_classified_grayscale:
  "d3Color sample (JString ''hsl(0, 100%, 50%)'') = Some (Hsl (Num 0) (Num 1) (Num 0.5) (Num 1))
   \<and> isGrayscale sample (JString ''hsl(0, 100%, 50%)'') = Inr True
   \<and> \<not> maybeGrayscale sample (JString ''hsl(0, 100%, 50%)'')
   \<and> grayscale sample [[\<lparr>name = ''Red'', slug = ''red'', color = JString ''hsl(0, 100%, 50%)''\<rparr>]]
       = [\<lparr>name = ''Red'', slug = ''red'', color = JString ''hsl(0, 100%, 50%)''\<rparr>]
   \<and> isGrayscale sample (JString ''#f00'') = Inr False
   \<and> grayscale sample [[\<lparr>name = ''Red'', slug = ''red'', color = JString ''#f00''\<rparr>]] = []"
  by (simp add: build_simps sample_simps)

text \<open>
  Claim C6. An entry of the deduplicated collection whose color the parser rejects and
  whose color string matches the notation pattern is in \<open>falsePositives\<close>, not in
  \<open>notColors\<close> and not in \<open>grayscale\<close>, and it is in the part of the output that precedes
  the sorted grayscale group.
\<close>

theorem build_nonstandard_notation:
  assumes "value \<in> set (collection objects)"
    and "d3Color L (color value) = None"
    and "notation_test (toString (color value))"
  shows "value \<in> set (falsePositives L objects)
         \<and> value \<notin> set (notColors L objects)
         \<and> value \<notin> set (grayscale L objects)
         \<and> (\<exists>front. build L objects = Inr (front @ sort_key name (grayscale L objects))
                     \<and> value \<in> set front)"
proof -
  from assms(1,2) have "value \<in> set (maybeColors L objects)"
    by (simp add: maybeColors_def)
  with assms(3) have fp: "value \<in> set (falsePositives L objects)"
    by (simp add: falsePositives_def)
  from assms(3) have nc: "value \<notin> set (notColors L objects)"
    by (simp add: notColors_def)
  from assms(2) have g: "value \<notin> set (grayscale L objects)"
    by (auto simp: grayscale_eq dest: colors_parsed)
  let ?front = "sort_key name (notGrayscale L objects @ falsePositives L objects @ notColors L objects)"
  have "build L objects = Inr (?front @ sort_key name (grayscale L objects))"
    by (rule build_eq)
  moreover from fp have "value \<in> set ?front" by simp
  ultimately show ?thesis using fp nc g by blast
qed

text \<open>An instance of C6 with the color string \<open>rgb(var(--x))\<close>.\<close>

theorem build_nonstandard_notation_witness:
  "\<lparr>name = ''A'', slug = ''a'', color = JString ''rgb(var(--x))''\<rparr>
     \<in> set (collection [[\<lparr>name = ''C'', slug = ''c'', color = JString ''#111''\<rparr>],
                         [\<lparr>name = ''A'', slug = ''a'', color = JString ''rgb(var(--x))''\<rparr>]])
   \<and> d3Color sample (JString ''rgb(var(--x))'') = None
   \<and> notation_test ''rgb(var(--x))''
   \<and> \<lparr>name = ''A'', slug = ''a'', color = JString ''rgb(var(--x))''\<rparr>
     \<in> set (falsePositives sample
               [[\<lparr>name = ''C'', slug = ''c'', color = JString ''#111''\<rparr>],
                [\<lparr>name = ''A'', slug = ''a'', color = JString ''rgb(var(--x))''\<rparr>]])
   \<and> build sample [[\<lparr>name = ''C'', slug = ''c'', color = JString ''#111''\<rparr>],
                    [\<lparr>name = ''A'', slug = ''a'', color = JString ''rgb(var(--x))''\<rparr>]]
     = Inr [\<lparr>name = ''A'', slug = ''a'', color = JString ''rgb(var(--x))''\<rparr>,
            \<lparr>name = ''C'', slug = ''c'', color = JString ''#111''\<rparr>]"
proof -
  let ?A = "\<lparr>name = ''A'', slug = ''a'', color = JString ''rgb(var(--x))''\<rparr>"
  let ?C = "\<lparr>name = ''C'', slug = ''c'', color = JString ''#111''\<rparr>"
  have h1: "?A \<in> set (collection [[?C], [?A]])"
    by (simp add: collection_def uniqBy_def union_def)
  have h2: "d3Color sample (color ?A) = None" by (simp add: sample_simps)
  have h3: "notation_test (toString (color ?A))"
    by (simp add: notation_test_def ci_def line_terminator_def)
  from build_nonstandard_notation [OF h1 h2 h3] h1 h2 h3 show ?thesis
    by (simp add: build_simps sample_simps)
qed



text \<open>
  Claim C10. Every entry that the third partition of \<open>build\<close> tests is one whose color
  the parser accepted, so \<open>isGrayscale\<close> returns a boolean on it and neither the partition
  nor \<open>build\<close> throws; on a color that the parser rejects \<open>isGrayscale\<close> throws a TypeError.
\<close>

theorem isGrayscale_null_parse:
  "(\<forall>value \<in> set (colors L objects).
       d3Color L (color value) \<noteq> None \<and> (\<exists>b. isGrayscale L (color value) = Inr b))
   \<and> (\<exists>yes no. partition_e (grayscale_test L) (colors L objects) = Inr (yes, no))
   \<and> (\<exists>out. build L objects = Inr out)
   \<and> (d3Color L c = None \<longrightarrow> isGrayscale L c = Inl TypeError)"
proof -
  have "\<forall>value \<in> set (colors L objects).
       d3Color L (color value) \<noteq> None \<and> (\<exists>b. isGrayscale L (color value) = Inr b)"
    using colors_parsed isGrayscale_parsed by blast
  moreover have "\<exists>yes no. partition_e (grayscale_test L) (colors L objects) = Inr (yes, no)"
    using grayscale_split_total [of L objects] by (simp add: grayscale_split_def)
  moreover have "\<exists>out. build L objects = Inr out" by (simp add: build_eq)
  moreover have "d3Color L c = None \<longrightarrow> isGrayscale L c = Inl TypeError"
    by (simp add: isGrayscale_def)
  ultimately show ?thesis by blast
qed

text \<open>An instance of C10: one parsed and one rejected color.\<close>

theorem isGrayscale_null_parse_witness:
  "colors sample [[\<lparr>name = ''Red'', slug = ''red'', color = JString ''#f00''\<rparr>,
                   \<lparr>name = ''X'', slug = ''x'', color = JString ''var(--x)''\<rparr>]]
     = [\<lparr>name = ''Red'', slug = ''red'', color = JString ''#f00''\<rparr>]
   \<and> isGrayscale sample (JString ''#f00'') = Inr False
   \<and> d3Color sample (JString ''var(--x)'') = None
   \<and> isGrayscale sample (JString ''var(--x)'') = Inl TypeError"
  using isGrayscale_null_parse [of sample
          "[[\<lparr>name = ''Red'', slug = ''red'', color = JString ''#f00''\<rparr>,
             \<lparr>name = ''X'', slug = ''x'', color = JString ''var(--x)''\<rparr>]]"
          "JString ''var(--x)''"]
  by (simp add: build_simps sample_simps)



section \<open>Facts about the resolver\<close>

lemmas tailwind_simps = tailwind_def tailwind_entry_def transform_def single_def table_get_def

lemma toLowerCase_500: "toLowerCase ''500'' = ''500''"
  by code_simp

lemma toLowerCase_DEFAULT: "toLowerCase ''DEFAULT'' = ''default''"
  by code_simp

lemma mapM_e_total:
  "\<forall>x \<in> set xs. \<exists>y. f x = Inr y \<Longrightarrow> mapM_e f xs = Inr (map (\<lambda>x. projr (f x)) xs)"
  by (induction xs) auto

lemma transform_shade:
  assumes "map_of T key = Some (Shades m)" and "v \<in> set (map fst m)"
  shows "\<exists>c. map_of m v = Some c \<and>
     transform L opts T key (Some v) False =
       Inr (if v = [] then \<lparr>name = title L opts key None, slug = key, color = JObject m\<rparr>
            else if ''default'' = toLowerCase v
            then \<lparr>name = title L opts key None, slug = key, color = JString c\<rparr>
            else \<lparr>name = (if truthy (shades opts) then title L opts key (Some v)
                           else title L opts key None),
                   slug = key @ ''-'' @ v, color = JString c\<rparr>)"
proof -
  from assms(2) obtain c where c: "map_of m v = Some c"
    by (metis list.set_map map_of_eq_None_iff not_Some_eq)
  with assms(1) show ?thesis by (simp add: transform_def table_get_def)
qed

lemma transform_shade_total:
  assumes "map_of T key = Some (Shades m)" and "v \<in> set (map fst m)"
  shows "\<exists>e. transform L opts T key (Some v) False = Inr e"
  using transform_shade [OF assms] by blast

lemma map_of_filter_keys:
  "P k \<Longrightarrow> map_of (filter (\<lambda>(k, v). P k) T) k = map_of T k"
  by (induction T) auto

lemma table_get_cong: "map_of T' key = map_of T key \<Longrightarrow> table_get T' key = table_get T key"
  by (simp add: table_get_def)

lemma transform_table_cong:
  assumes "map_of T' key = map_of T key"
  shows "transform L opts T' key = transform L opts T key"
proof (intro ext)
  fix val isSass
  show "transform L opts T' key val isSass = transform L opts T key val isSass"
    unfolding transform_def table_get_cong [OF assms] by (rule refl)
qed

lemma tailwind_entry_table_cong:
  assumes "map_of T' key = map_of T key"
  shows "tailwind_entry L opts T' key = tailwind_entry L opts T key"
  unfolding tailwind_entry_def transform_table_cong [OF assms] assms by (rule refl)

lemma tailwind_entry_blacklisted:
  "key \<in> set (blacklist opts) \<Longrightarrow> tailwind_entry L opts T key = Inr []"
  by (simp add: tailwind_entry_def)

lemma mapM_e_skip_blacklisted:
  "(case mapM_e (tailwind_entry L opts T) ks of Inl e \<Rightarrow> Inl e | Inr ess \<Rightarrow> Inr (concat ess))
   = (case mapM_e (tailwind_entry L opts (filter (\<lambda>(k, v). k \<notin> set (blacklist opts)) T))
              (filter (\<lambda>k. k \<notin> set (blacklist opts)) ks)
      of Inl e \<Rightarrow> Inl e | Inr ess \<Rightarrow> Inr (concat ess))"
proof (induction ks)
  case Nil
  then show ?case by simp
next
  case (Cons k ks)
  show ?case
  proof (cases "k \<in> set (blacklist opts)")
    case True
    with Cons show ?thesis
      by (simp add: tailwind_entry_blacklisted split: sum.splits)
  next
    case False
    then have "tailwind_entry L opts (filter (\<lambda>(k, v). k \<notin> set (blacklist opts)) T) k
             = tailwind_entry L opts T k"
      by (intro tailwind_entry_table_cong map_of_filter_keys)
    with False Cons show ?thesis
      by (simp split: sum.splits)
  qed
qed

section \<open>Claims about the resolver\<close>




text \<open>
  Claim C3, as amended. For the shade table \<open>{blue: {500: '#4287f5', 900: '#001030'}}\<close>,
  the shades option \<open>['500']\<close> and a blacklist without \<open>blue\<close> the resolver emits exactly
  one entry, equal to \<open>{name: 'Blue (500)', slug: 'blue-500', color: '#4287f5'}\<close>. The
  first three hypotheses say what lodash returns on this input: the start case of \<open>blue\<close>
  and of \<open>500\<close>, and that the array \<open>['500']\<close> has no own property \<open>500\<close>.
\<close>

theorem explicit_list_shade_name:
  assumes "startCase L (camelCase L ''blue'') = ''Blue''"
    and "startCase L (camelCase L ''500'') = ''500''"
    and "\<not> has L (SArray [''500'']) ''500''"
    and "''blue'' \<notin> set bl"
  shows "tailwind L \<lparr>blacklist = bl, shades = SArray [''500'']\<rparr>
           [(''blue'', Shades [(''500'', ''#4287f5''), (''900'', ''#001030'')])]
         = Inr [\<lparr>name = ''Blue (500)'', slug = ''blue-500'', color = JString ''#4287f5''\<rparr>]"
  using assms by (simp add: tailwind_simps toLowerCase_500)

text \<open>The instance of C3 at the sample of lodash and the default blacklist.\<close>

theorem explicit_list_shade_name_witness:
  "startCase sample (camelCase sample ''blue'') = ''Blue''
   \<and> startCase sample (camelCase sample ''500'') = ''500''
   \<and> \<not> has sample (SArray [''500'']) ''500''
   \<and> ''blue'' \<notin> set [''transparent'', ''inherit'']
   \<and> tailwind sample \<lparr>blacklist = [''transparent'', ''inherit''], shades = SArray [''500'']\<rparr>
           [(''blue'', Shades [(''500'', ''#4287f5''), (''900'', ''#001030'')])]
         = Inr [\<lparr>name = ''Blue (500)'', slug = ''blue-500'', color = JString ''#4287f5''\<rparr>]"
proof -
  have h1: "startCase sample (camelCase sample ''blue'') = ''Blue''" by (simp add: sample_simps)
  have h2: "startCase sample (camelCase sample ''500'') = ''500''" by (simp add: sample_simps)
  have h3: "\<not> has sample (SArray [''500'']) ''500''" by (simp add: sample_simps digit_value_def)
  have h4: "''blue'' \<notin> set [''transparent'', ''inherit'']" by simp
  from explicit_list_shade_name [OF h1 h2 h3 h4] h1 h2 h3 h4 show ?thesis by blast
qed

text \<open>Claim C3 as stated fails: the entry emitted does not have the name \<open>Blue\<close>.\<close>

theorem explicit_list_shade_name_counterexample:
  "tailwind sample \<lparr>blacklist = [''transparent'', ''inherit''], shades = SArray [''500'']\<rparr>
           [(''blue'', Shades [(''500'', ''#4287f5''), (''900'', ''#001030'')])]
   \<noteq> Inr [\<lparr>name = ''Blue'', slug = ''blue-500'', color = JString ''#4287f5''\<rparr>]"
  by (simp add: tailwind_simps sample_simps toLowerCase_500 digit_value_def)

text \<open>
  Claim C8, as amended. For every base name whose value is a shade mapping and every
  shade key of it that equals \<open>default\<close> after \<open>toLowerCase\<close>: the entry that \<open>transform\<close>
  makes for the pair, under every shades option, has the bare base name as slug, the
  plain title of the base name as name and the color stored under that key; and when the
  base name is not empty and not blacklisted and the shades option selects the key
  (\<open>true\<close>; \<open>false\<close> with no key \<open>500\<close> in the mapping; a list that contains the key; a
  label object that has the key) the resolver emits this entry for the base.
\<close>

theorem default_shade_entry:
  assumes "toLowerCase v = ''default''"
    and "map_of T key = Some (Shades m)"
    and "map_of m v = Some c"
  shows "transform L opts T key (Some v) False
           = Inr \<lparr>name = startCase L (camelCase L key), slug = key, color = JString c\<rparr>
         \<and> (key \<noteq> [] \<and> key \<notin> set (blacklist opts)
              \<and> (case shades opts of
                    SBool b \<Rightarrow> b \<or> ''500'' \<notin> set (map fst m)
                  | SArray l \<Rightarrow> v \<in> set l
                  | SObject ob \<Rightarrow> v \<in> set (map fst ob)) \<longrightarrow>
              (\<exists>es. tailwind_entry L opts T key = Inr es
                    \<and> \<lparr>name = startCase L (camelCase L key), slug = key, color = JString c\<rparr>
                        \<in> set es))"
proof -
  let ?e = "\<lparr>name = startCase L (camelCase L key), slug = key, color = JString c\<rparr>"
  let ?f = "\<lambda>x. transform L opts T key (Some x) False"
  from assms(1) have "v \<noteq> []" by (auto simp: toLowerCase_def)
  with assms have t: "?f v = Inr ?e"
    by (simp add: transform_def table_get_def)
  have mem: "v \<in> set (map fst m)"
    using assms(3) by (metis list.set_map map_of_eq_None_iff option.distinct(1))
  have emitted: "\<exists>es. mapM_e ?f (filter P (map fst m)) = Inr es \<and> ?e \<in> set es" if "P v" for P
  proof -
    have "\<forall>x \<in> set (filter P (map fst m)). \<exists>e. ?f x = Inr e"
      using transform_shade_total [OF assms(2)] by auto
    then have "mapM_e ?f (filter P (map fst m))
               = Inr (map (\<lambda>x. projr (?f x)) (filter P (map fst m)))"
      by (rule mapM_e_total)
    moreover have "?e \<in> set (map (\<lambda>x. projr (?f x)) (filter P (map fst m)))"
      using mem t that by force
    ultimately show ?thesis by blast
  qed
  have "\<exists>es. tailwind_entry L opts T key = Inr es \<and> ?e \<in> set es"
    if k: "key \<noteq> []" "key \<notin> set (blacklist opts)"
      and sel: "case shades opts of
                    SBool b \<Rightarrow> b \<or> ''500'' \<notin> set (map fst m)
                  | SArray l \<Rightarrow> v \<in> set l
                  | SObject ob \<Rightarrow> v \<in> set (map fst ob)"
  proof (cases "shades opts")
    case (SBool b)
    with sel have "\<not> (\<not> truthy (shades opts) \<and> ''500'' \<in> set (map fst m))" by auto
    with k assms(2) SBool emitted [of "\<lambda>x. True"] show ?thesis
      by (auto simp: tailwind_entry_def)
  next
    case (SArray l)
    with sel have "v \<in> set l" by simp
    with k assms(2) SArray emitted [of "\<lambda>x. x \<in> set l"] show ?thesis
      by (simp add: tailwind_entry_def)
  next
    case (SObject ob)
    with sel have "v \<in> set (map fst ob)" by simp
    with k assms(2) SObject emitted [of "\<lambda>x. x \<in> set (map fst ob)"] show ?thesis
      by (simp add: tailwind_entry_def)
  qed
  with t show ?thesis by blast
qed

text \<open>An instance of C8 with the shade key \<open>DEFAULT\<close> and the shades option \<open>['DEFAULT']\<close>.\<close>

theorem default_shade_entry_witness:
  "toLowerCase ''DEFAULT'' = ''default''
   \<and> transform sample \<lparr>blacklist = [''transparent'', ''inherit''], shades = SArray [''DEFAULT'']\<rparr>
        [(''blue'', Shades [(''50'', ''#eef''), (''DEFAULT'', ''#246'')])] ''blue''
        (Some ''DEFAULT'') False
       = Inr \<lparr>name = ''Blue'', slug = ''blue'', color = JString ''#246''\<rparr>
   \<and> (\<exists>es. tailwind_entry sample \<lparr>blacklist = [''transparent'', ''inherit''], shades = SArray [''DEFAULT'']\<rparr>
              [(''blue'', Shades [(''50'', ''#eef''), (''DEFAULT'', ''#246'')])] ''blue'' = Inr es
          \<and> \<lparr>name = ''Blue'', slug = ''blue'', color = JString ''#246''\<rparr> \<in> set es)"
proof -
  have h1: "toLowerCase ''DEFAULT'' = ''default''" by (rule toLowerCase_DEFAULT)
  have h2: "map_of [(''blue'', Shades [(''50'', ''#eef''), (''DEFAULT'', ''#246'')])] ''blue''
              = Some (Shades [(''50'', ''#eef''), (''DEFAULT'', ''#246'')])" by simp
  have h3: "map_of [(''50'', ''#eef''), (''DEFAULT'', ''#246'')] ''DEFAULT'' = Some ''#246''" by simp
  from default_shade_entry [OF h1 h2 h3, of sample
         "\<lparr>blacklist = [''transparent'', ''inherit''], shades = SArray [''DEFAULT'']\<rparr>"] h1
  show ?thesis by (simp add: sample_simps)
qed

text \<open>
  Claim C8 as stated fails: the resolver does not emit an entry for every \<open>default\<close> key.
  With \<open>shades = false\<close> and the mapping \<open>{500: '#4287f5', default: '#246'}\<close> it emits the
  entry of \<open>500\<close> alone, and with the list \<open>['50']\<close> and the mapping
  \<open>{50: '#eef', default: '#246'}\<close> the entry of \<open>50\<close> alone; in both the entry with the
  bare slug \<open>blue\<close> is missing.
\<close>

theorem default_shade_entry_counterexample:
  "tailwind sample \<lparr>blacklist = [''transparent'', ''inherit''], shades = SBool False\<rparr>
      [(''blue'', Shades [(''500'', ''#4287f5''), (''default'', ''#246'')])]
     = Inr [\<lparr>name = ''Blue'', slug = ''blue-500'', color = JString ''#4287f5''\<rparr>]
   \<and> \<lparr>name = ''Blue'', slug = ''blue'', color = JString ''#246''\<rparr>
       \<notin> set [\<lparr>name = ''Blue'', slug = ''blue-500'', color = JString ''#4287f5''\<rparr>]
   \<and> tailwind sample \<lparr>blacklist = [''transparent'', ''inherit''], shades = SArray [''50'']\<rparr>
      [(''blue'', Shades [(''50'', ''#eef''), (''default'', ''#246'')])]
     = Inr [\<lparr>name = ''Blue (50)'', slug = ''blue-50'', color = JString ''#eef''\<rparr>]
   \<and> \<lparr>name = ''Blue'', slug = ''blue'', color = JString ''#246''\<rparr>
       \<notin> set [\<lparr>name = ''Blue (50)'', slug = ''blue-50'', color = JString ''#eef''\<rparr>]"
proof -
  have l50: "toLowerCase ''50'' = ''50''" by code_simp
  have i50: "array_index ''50'' = Some 50" by code_simp
  show ?thesis
    by (simp add: tailwind_simps sample_simps toLowerCase_500 l50 i50 del: array_index.simps)
qed

text \<open>
  Claim C9. For a base name in the blacklist the resolver emits no entry, whatever the
  shades option and whatever the table holds for the base; the whole output is the
  output for the table without its blacklisted bases.
\<close>

theorem blacklist_emits_nothing:
  assumes "key \<in> set (blacklist opts)"
  shows "tailwind_entry L opts T key = Inr []
         \<and> tailwind L opts T
             = tailwind L opts (filter (\<lambda>(k, v). k \<notin> set (blacklist opts)) T)"
proof -
  have "map fst (filter (\<lambda>(k, v). k \<notin> set (blacklist opts)) T)
        = filter (\<lambda>k. k \<notin> set (blacklist opts)) (map fst T)"
    by (induction T) auto
  then have "tailwind L opts T
             = tailwind L opts (filter (\<lambda>(k, v). k \<notin> set (blacklist opts)) T)"
    by (simp add: tailwind_def mapM_e_skip_blacklisted [of L opts T "map fst T"])
  with assms show ?thesis by (simp add: tailwind_entry_blacklisted)
qed

text \<open>An instance of C9: a blacklisted string value and a blacklisted shade mapping.\<close>

theorem blacklist_emits_nothing_witness:
  "''transparent'' \<in> set (blacklist \<lparr>blacklist = [''transparent'', ''inherit''], shades = SBool True\<rparr>)
   \<and> tailwind_entry sample \<lparr>blacklist = [''transparent'', ''inherit''], shades = SBool True\<rparr>
        [(''transparent'', Str ''transparent''), (''inherit'', Shades [(''500'', ''#111'')]),
         (''blue'', Str ''#00f'')] ''transparent'' = Inr []
   \<and> tailwind sample \<lparr>blacklist = [''transparent'', ''inherit''], shades = SBool True\<rparr>
        [(''transparent'', Str ''transparent''), (''inherit'', Shades [(''500'', ''#111'')]),
         (''blue'', Str ''#00f'')]
       = Inr [\<lparr>name = ''Blue'', slug = ''blue'', color = JString ''#00f''\<rparr>]"
proof -
  have h: "''transparent'' \<in> set (blacklist \<lparr>blacklist = [''transparent'', ''inherit''], shades = SBool True\<rparr>)"
    by simp
  from blacklist_emits_nothing [OF h, of sample
         "[(''transparent'', Str ''transparent''), (''inherit'', Shades [(''500'', ''#111'')]),
           (''blue'', Str ''#00f'')]"] h
  show ?thesis
    by (simp add: tailwind_simps sample_simps)
qed

end
